theory Spec2Isabelle
  imports Main "HOL-Library.Signed_Division"
begin

section \<open>The software clock of softdatetime.ts\<close>

text \<open>
  TypeScript numbers are modelled as \<open>int\<close>: every value the clock computes with is a
  whole number of seconds, days or years (an amount with a fraction, which \<open>advanceBy\<close>
  would accept, is outside the model). The remainder operator \<open>%\<close> of the source
  takes the sign of the dividend, which is \<open>smod\<close>; \<open>Math.idiv\<close> truncates towards
  zero, which is \<open>sdiv\<close>. A read of the table \<open>cdoy\<close> outside its bounds is
  \<open>undefined\<close> in the source: a comparison with it is false, and arithmetic on it is
  not a number, which the model writes as \<open>None\<close>.
\<close>

subsection \<open>Enumerations and the instant\<close>

datatype MornNight = AM | PM

datatype TimeUnit = Milliseconds | Seconds | Minutes | Hours | Days

datatype TimeFormat = AMPM | HHMM24hr

datatype DateFormat = MD | MDYYYY | YYYY_MM_DD

text \<open>The position of a unit in its enumeration, which the source uses as an array index.\<close>

fun TimeUnit_index :: "TimeUnit \<Rightarrow> nat" where
  "TimeUnit_index Milliseconds = 0"
| "TimeUnit_index Seconds = 1"
| "TimeUnit_index Minutes = 2"
| "TimeUnit_index Hours = 3"
| "TimeUnit_index Days = 4"

record DateTime =
  month :: int
  day :: int
  year :: int
  hour :: int
  minute :: int
  second :: int
  dayOfYear :: int

subsection \<open>State\<close>

text \<open>
  The three module-level variables of the source, and the serial line that
  \<open>advanceBy\<close> writes to. All three variables start at 0.
\<close>

record ClockState =
  startYear :: int
  timeToSetpoint :: int
  cpuTimeAtSetpoint :: int
  serialOut :: "string list"

definition initialState :: ClockState where
  "initialState = \<lparr>startYear = 0, timeToSetpoint = 0, cpuTimeAtSetpoint = 0, serialOut = []\<rparr>"

subsection \<open>Calendar arithmetic\<close>

definition cdoy :: "int list" where
  "cdoy = [0, 0, 31, 59, 90, 120, 151, 181, 212, 243, 273, 304, 334, 365]"

text \<open>\<open>cdoy[i]\<close> for a whole number \<open>i\<close>; \<open>None\<close> is the \<open>undefined\<close> of a read out of bounds.\<close>

definition cdoyAt :: "int \<Rightarrow> int option" where
  "cdoyAt i = (if 0 \<le> i \<and> i < int (length cdoy) then Some (cdoy ! nat i) else None)"

text \<open>
  Modelled from the spec: \<open>Math.idiv\<close> belongs to the platform library, which is not part
  of the sources; the specification says that all division is truncating integer division.
\<close>

definition idiv :: "int \<Rightarrow> int \<Rightarrow> int" where
  "idiv x y = x sdiv y"

definition isLeapYear :: "int \<Rightarrow> bool" where
  "isLeapYear y = (y smod 400 = 0 \<or> (y smod 100 \<noteq> 0 \<and> y smod 4 = 0))"

definition dateToDayOfYear :: "int \<Rightarrow> int \<Rightarrow> int \<Rightarrow> int option" where
  "dateToDayOfYear m d y =
     (case cdoyAt m of
        None \<Rightarrow> None
      | Some c \<Rightarrow>
          (let doy = c + d
           in Some (if m > 2 \<and> isLeapYear y then doy + 1 else doy)))"

text \<open>The \<open>for\<close> loop of \<open>dayOfYearToMonthAndDay\<close>, from index \<open>i\<close> on.\<close>

function monthLoop :: "nat \<Rightarrow> int \<Rightarrow> DateTime" where
  "monthLoop i d =
     (if i < length cdoy then
        (if (case cdoyAt (int i + 1) of None \<Rightarrow> False | Some c \<Rightarrow> d \<le> c) then
           \<lparr>month = int i, day = d - cdoy ! i, year = 0, hour = 0, minute = 0, second = 0,
            dayOfYear = 0\<rparr>
         else monthLoop (i + 1) d)
      else \<lparr>month = -1, day = -1, year = 0, hour = 0, minute = 0, second = 0, dayOfYear = 0\<rparr>)"
  by pat_completeness auto
termination
  by (relation "measure (\<lambda>(i, d). length cdoy - i)") auto

declare monthLoop.simps [simp del]

definition dayOfYearToMonthAndDay :: "int \<Rightarrow> int \<Rightarrow> DateTime" where
  "dayOfYearToMonthAndDay d y =
     (if isLeapYear y then
        (if d = 60 then
           \<lparr>month = 2, day = 29, year = 0, hour = 0, minute = 0, second = 0, dayOfYear = 0\<rparr>
         else if d > 60 then monthLoop 1 (d - 1)
         else monthLoop 1 d)
      else monthLoop 1 d)"

definition secondsSoFarForYear :: "int \<Rightarrow> int \<Rightarrow> int \<Rightarrow> int \<Rightarrow> int \<Rightarrow> int \<Rightarrow> int option" where
  "secondsSoFarForYear m d y hh mm ss =
     (case dateToDayOfYear m d y of
        None \<Rightarrow> None
      | Some doy \<Rightarrow> Some ((((doy - 1) * 24 + hh) * 60 + mm) * 60 + ss))"

subsection \<open>Resolving an instant\<close>

text \<open>
  The \<open>while\<close> loop of \<open>timeFor\<close> on the variables \<open>sSinceStartOfYear\<close>, \<open>y\<close> and
  \<open>leap\<close>; it returns the first two, which are all the rest of the function reads
  (\<open>leap\<close> is not read after the loop).
\<close>

function yearLoop :: "int \<Rightarrow> int \<Rightarrow> bool \<Rightarrow> int \<times> int" where
  "yearLoop s y leap =
     (if (\<not> leap \<and> s > 365 * 24 * 60 * 60) \<or> s > 366 * 24 * 60 * 60 then
        yearLoop (if leap then s - 366 * 24 * 60 * 60 else s - 365 * 24 * 60 * 60)
          (y + 1) (isLeapYear (y + 1))
      else (s, y))"
  by pat_completeness auto
termination
  by (relation "measure (\<lambda>(s, y, leap). nat s)") auto

declare yearLoop.simps [simp del]

definition timeFor :: "ClockState \<Rightarrow> int \<Rightarrow> DateTime" where
  "timeFor st cpuTime =
     (let deltaTime = cpuTime - cpuTimeAtSetpoint st;
          (sSinceStartOfYear, y) =
             yearLoop (timeToSetpoint st + deltaTime) (startYear st) (isLeapYear (startYear st));
          daysFromStartOfYear = idiv sSinceStartOfYear (24 * 60 * 60) + 1;
          secondsSinceStartOfDay = sSinceStartOfYear smod (24 * 60 * 60);
          hoursFromStartOfDay = idiv secondsSinceStartOfDay (60 * 60);
          secondsSinceStartOfHour = secondsSinceStartOfDay smod (60 * 60);
          minutesFromStartOfHour = idiv secondsSinceStartOfHour 60;
          secondsSinceStartOfMinute = secondsSinceStartOfHour smod 60;
          ddmm = dayOfYearToMonthAndDay daysFromStartOfYear y
      in \<lparr>month = month ddmm, day = day ddmm, year = y, hour = hoursFromStartOfDay,
          minute = minutesFromStartOfHour, second = secondsSinceStartOfMinute,
          dayOfYear = daysFromStartOfYear\<rparr>)"

text \<open>\<open>input.runningTime()\<close> is the platform's millisecond counter; its reading is a parameter.\<close>

definition timeInSeconds :: "int \<Rightarrow> int" where
  "timeInSeconds runningTime = idiv runningTime 1000"

subsection \<open>Formatting\<close>

text \<open>A number as the source's \<open>inp + ""\<close> writes it: decimal digits, a minus sign first.\<close>

definition digitChar :: "nat \<Rightarrow> char" where
  "digitChar n = char_of (48 + n)"

function natToString :: "nat \<Rightarrow> string" where
  "natToString n = (if n < 10 then [digitChar n] else natToString (n div 10) @ [digitChar (n mod 10)])"
  by pat_completeness auto
termination
  by (relation "measure (\<lambda>n. n)") auto

declare natToString.simps [simp del]

definition numToString :: "int \<Rightarrow> string" where
  "numToString i = (if i < 0 then ''-'' @ natToString (nat (- i)) else natToString (nat i))"

text \<open>The \<open>while\<close> loop of \<open>leftZeroPadTo\<close> on the variable \<open>value\<close>.\<close>

function padLoop :: "string \<Rightarrow> int \<Rightarrow> string" where
  "padLoop v digits = (if int (length v) < digits then padLoop (''0'' @ v) digits else v)"
  by pat_completeness auto
termination
  by (relation "measure (\<lambda>(v, digits). nat (digits - int (length v)))") auto

declare padLoop.simps [simp del]

definition leftZeroPadTo :: "int \<Rightarrow> int \<Rightarrow> string" where
  "leftZeroPadTo inp digits = padLoop (numToString inp) digits"

definition dayOfWeek :: "int \<Rightarrow> int \<Rightarrow> int \<Rightarrow> int" where
  "dayOfWeek m d y =
     (let D = y smod 100;
          C = idiv y 100
      in d + idiv (13 * m - 1) 5 + D + idiv D 4 + idiv C 4 - 2 * C)"

definition fullTime :: "DateTime \<Rightarrow> string" where
  "fullTime t = leftZeroPadTo (hour t) 2 @ '':'' @ leftZeroPadTo (minute t) 2 @ ''.'' @
     leftZeroPadTo (second t) 2"

definition fullYear :: "DateTime \<Rightarrow> string" where
  "fullYear t = leftZeroPadTo (year t) 4 @ ''-'' @ leftZeroPadTo (month t) 2 @ ''-'' @
     leftZeroPadTo (day t) 2"

subsection \<open>Exposed blocks\<close>

text \<open>
  Every block takes the reading \<open>rt\<close> of \<open>input.runningTime()\<close> at the call and the state
  before it. The setters return the state after it; \<open>None\<close> stands for a state in which
  \<open>timeToSetpoint\<close> is not a number (the table was read out of bounds). The queries
  return their result and the state after the call.
\<close>

definition set24HourTime :: "int \<Rightarrow> int \<Rightarrow> int \<Rightarrow> int \<Rightarrow> ClockState \<Rightarrow> ClockState option" where
  "set24HourTime hh mm ss rt st =
     (let cpuTime = timeInSeconds rt;
          t = timeFor st cpuTime
      in case secondsSoFarForYear (month t) (day t) (year t) hh mm ss of
           None \<Rightarrow> None
         | Some v \<Rightarrow> Some (st\<lparr>cpuTimeAtSetpoint := cpuTime, timeToSetpoint := v\<rparr>))"

definition setDate :: "int \<Rightarrow> int \<Rightarrow> int \<Rightarrow> int \<Rightarrow> ClockState \<Rightarrow> ClockState option" where
  "setDate m d y rt st =
     (let cpuTime = timeInSeconds rt;
          t = timeFor st cpuTime
      in case secondsSoFarForYear m d y (hour t) (minute t) (second t) of
           None \<Rightarrow> None
         | Some v \<Rightarrow> Some (st\<lparr>startYear := y, cpuTimeAtSetpoint := cpuTime, timeToSetpoint := v\<rparr>))"

definition setTime :: "int \<Rightarrow> int \<Rightarrow> int \<Rightarrow> MornNight \<Rightarrow> int \<Rightarrow> ClockState \<Rightarrow> ClockState option" where
  "setTime hh mm ss ampm rt st =
     set24HourTime
       (if ampm = AM \<and> hh = 12 then 0
        else if hh < 12 then hh + 12
        else hh)
       mm ss rt st"

definition units :: "int list" where
  "units = [0, 1, 60 * 1, 60 * 60 * 1, 24 * 60 * 60 * 1]"

definition advanceBy :: "int \<Rightarrow> TimeUnit \<Rightarrow> ClockState \<Rightarrow> ClockState" where
  "advanceBy amount u st =
     st\<lparr>serialOut := serialOut st @ [numToString (int (TimeUnit_index u))],
        cpuTimeAtSetpoint := cpuTimeAtSetpoint st - amount * units ! TimeUnit_index u\<rparr>"

text \<open>
  The handler of \<open>numericTime\<close> is the caller's code: it receives the eight numbers and
  runs on the state that \<open>numericTime\<close> leaves.
\<close>

definition numericTime ::
  "(int \<Rightarrow> int \<Rightarrow> int \<Rightarrow> int \<Rightarrow> int \<Rightarrow> int \<Rightarrow> int \<Rightarrow> int \<Rightarrow> ClockState \<Rightarrow> ClockState) \<Rightarrow>
     int \<Rightarrow> ClockState \<Rightarrow> ClockState" where
  "numericTime handler rt st =
     (let cpuTime = timeInSeconds rt;
          t = timeFor st cpuTime
      in handler (hour t) (minute t) (second t) (dayOfWeek (month t) (day t) (year t))
           (day t) (month t) (year t) (dayOfYear t) st)"

fun time :: "TimeFormat \<Rightarrow> int \<Rightarrow> ClockState \<Rightarrow> string \<times> ClockState" where
  "time HHMM24hr rt st = (fullTime (timeFor st (timeInSeconds rt)), st)"
| "time AMPM rt st =
     (let t = timeFor st (timeInSeconds rt);
          ap = (if hour t < 12 then ''am'' else ''pm'');
          h = (if hour t = 0 then 12 else if hour t > 12 then hour t - 12 else hour t)
      in (numToString h @ '':'' @ leftZeroPadTo (minute t) 2 @ ''.'' @
            leftZeroPadTo (second t) 2 @ ap, st))"

fun date :: "DateFormat \<Rightarrow> int \<Rightarrow> ClockState \<Rightarrow> string \<times> ClockState" where
  "date MD rt st =
     (let t = timeFor st (timeInSeconds rt)
      in (numToString (month t) @ ''/'' @ numToString (day t), st))"
| "date MDYYYY rt st =
     (let t = timeFor st (timeInSeconds rt)
      in (numToString (month t) @ ''/'' @ numToString (day t) @ ''/'' @ numToString (year t), st))"
| "date YYYY_MM_DD rt st = (fullYear (timeFor st (timeInSeconds rt)), st)"

definition dateTime :: "int \<Rightarrow> ClockState \<Rightarrow> string \<times> ClockState" where
  "dateTime rt st =
     (let t = timeFor st (timeInSeconds rt)
      in (fullYear t @ '' '' @ fullTime t, st))"

text \<open>The three event blocks have empty bodies.\<close>

definition onMinuteChanged :: "'h \<Rightarrow> ClockState \<Rightarrow> ClockState" where
  "onMinuteChanged handler st = st"

definition onHourChanged :: "'h \<Rightarrow> ClockState \<Rightarrow> ClockState" where
  "onHourChanged handler st = st"

definition onDayChanged :: "'h \<Rightarrow> ClockState \<Rightarrow> ClockState" where
  "onDayChanged handler st = st"

subsection \<open>Auxiliary notions for the statements\<close>

text \<open>
  None of the following is a function of the source. \<open>monthAndDay\<close> is the value that
  \<open>dayOfYearToMonthAndDay\<close> builds for a month and a day (all other fields 0);
  \<open>daysInMonth\<close> and \<open>daysInYear\<close> are the lengths of the Gregorian calendar, which
  say what a valid date and a valid day of the year are; \<open>startSeconds\<close> is the value
  of \<open>sSinceStartOfYear\<close> before the loop of \<open>timeFor\<close>, and \<open>instantOf\<close> is the part
  of \<open>timeFor\<close> after its loop.
\<close>

definition monthAndDay :: "int \<Rightarrow> int \<Rightarrow> DateTime" where
  "monthAndDay m d = \<lparr>month = m, day = d, year = 0, hour = 0, minute = 0, second = 0, dayOfYear = 0\<rparr>"

definition daysInMonth :: "int \<Rightarrow> int \<Rightarrow> int" where
  "daysInMonth m y =
     (if m = 2 then (if isLeapYear y then 29 else 28)
      else if m = 4 \<or> m = 6 \<or> m = 9 \<or> m = 11 then 30
      else 31)"

definition daysInYear :: "int \<Rightarrow> int" where
  "daysInYear y = (if isLeapYear y then 366 else 365)"

definition instantOf :: "int \<Rightarrow> int \<Rightarrow> DateTime" where
  "instantOf s y =
     (let ddmm = dayOfYearToMonthAndDay (idiv s 86400 + 1) y
      in \<lparr>month = month ddmm, day = day ddmm, year = y,
          hour = idiv (s smod 86400) 3600,
          minute = idiv ((s smod 86400) smod 3600) 60,
          second = ((s smod 86400) smod 3600) smod 60,
          dayOfYear = idiv s 86400 + 1\<rparr>)"

definition startSeconds :: "ClockState \<Rightarrow> int \<Rightarrow> int" where
  "startSeconds st cpuTime = timeToSetpoint st + (cpuTime - cpuTimeAtSetpoint st)"

section \<open>Lemmas\<close>

subsection \<open>The table and the month loop\<close>

lemma monthLoop_unfold:
  "monthLoop (Suc 0) d =
    (if d \<le> 31 then monthAndDay 1 d
     else if d \<le> 59 then monthAndDay 2 (d - 31)
     else if d \<le> 90 then monthAndDay 3 (d - 59)
     else if d \<le> 120 then monthAndDay 4 (d - 90)
     else if d \<le> 151 then monthAndDay 5 (d - 120)
     else if d \<le> 181 then monthAndDay 6 (d - 151)
     else if d \<le> 212 then monthAndDay 7 (d - 181)
     else if d \<le> 243 then monthAndDay 8 (d - 212)
     else if d \<le> 273 then monthAndDay 9 (d - 243)
     else if d \<le> 304 then monthAndDay 10 (d - 273)
     else if d \<le> 334 then monthAndDay 11 (d - 304)
     else if d \<le> 365 then monthAndDay 12 (d - 334)
     else monthAndDay (-1) (-1))"
  by (simp add: monthLoop.simps cdoyAt_def cdoy_def monthAndDay_def)

lemma cdoyAt_month:
  "cdoyAt 1 = Some 0" "cdoyAt 2 = Some 31" "cdoyAt 3 = Some 59" "cdoyAt 4 = Some 90"
  "cdoyAt 5 = Some 120" "cdoyAt 6 = Some 151" "cdoyAt 7 = Some 181" "cdoyAt 8 = Some 212"
  "cdoyAt 9 = Some 243" "cdoyAt 10 = Some 273" "cdoyAt 11 = Some 304" "cdoyAt 12 = Some 334"
  by (simp_all add: cdoyAt_def cdoy_def)

lemma isLeapYear_2024: "isLeapYear 2024"
  by (simp add: isLeapYear_def signed_modulo_int_def)

lemma monthLoop_month:
  "d \<le> 31 \<Longrightarrow> monthLoop (Suc 0) d = monthAndDay 1 d"
  "31 < d \<Longrightarrow> d \<le> 59 \<Longrightarrow> monthLoop (Suc 0) d = monthAndDay 2 (d - 31)"
  "59 < d \<Longrightarrow> d \<le> 90 \<Longrightarrow> monthLoop (Suc 0) d = monthAndDay 3 (d - 59)"
  "90 < d \<Longrightarrow> d \<le> 120 \<Longrightarrow> monthLoop (Suc 0) d = monthAndDay 4 (d - 90)"
  "120 < d \<Longrightarrow> d \<le> 151 \<Longrightarrow> monthLoop (Suc 0) d = monthAndDay 5 (d - 120)"
  "151 < d \<Longrightarrow> d \<le> 181 \<Longrightarrow> monthLoop (Suc 0) d = monthAndDay 6 (d - 151)"
  "181 < d \<Longrightarrow> d \<le> 212 \<Longrightarrow> monthLoop (Suc 0) d = monthAndDay 7 (d - 181)"
  "212 < d \<Longrightarrow> d \<le> 243 \<Longrightarrow> monthLoop (Suc 0) d = monthAndDay 8 (d - 212)"
  "243 < d \<Longrightarrow> d \<le> 273 \<Longrightarrow> monthLoop (Suc 0) d = monthAndDay 9 (d - 243)"
  "273 < d \<Longrightarrow> d \<le> 304 \<Longrightarrow> monthLoop (Suc 0) d = monthAndDay 10 (d - 273)"
  "304 < d \<Longrightarrow> d \<le> 334 \<Longrightarrow> monthLoop (Suc 0) d = monthAndDay 11 (d - 304)"
  "334 < d \<Longrightarrow> d \<le> 365 \<Longrightarrow> monthLoop (Suc 0) d = monthAndDay 12 (d - 334)"
  "365 < d \<Longrightarrow> monthLoop (Suc 0) d = monthAndDay (-1) (-1)"
  by (simp_all add: monthLoop_unfold)

lemma isLeapYear_2025: "\<not> isLeapYear 2025"
  by (simp add: isLeapYear_def signed_modulo_int_def)

lemma december_31_leap:
  "isLeapYear y \<Longrightarrow> month (dayOfYearToMonthAndDay d y) = 12 \<Longrightarrow>
     day (dayOfYearToMonthAndDay d y) = 31 \<Longrightarrow> d = 366"
  by (simp add: dayOfYearToMonthAndDay_def monthLoop_unfold monthAndDay_def split: if_splits)

lemma dayOfYearToMonthAndDay_next_year:
  "\<not> isLeapYear y \<Longrightarrow> \<not> isLeapYear (y + 1) \<or> d < 60 \<Longrightarrow>
     dayOfYearToMonthAndDay d (y + 1) = dayOfYearToMonthAndDay d y"
  by (auto simp: dayOfYearToMonthAndDay_def)

lemma roundtrip_month:
  assumes "m \<in> {1, 2, 3, 4, 5, 6, 7, 8, 9, 10, 11, 12}" and "1 \<le> d" and "d \<le> daysInMonth m y"
  shows "map_option (\<lambda>doy. dayOfYearToMonthAndDay doy y) (dateToDayOfYear m d y)
           = Some (monthAndDay m d)"
proof (cases "isLeapYear y")
  case True
  have "d = 29 \<Longrightarrow>
      monthAndDay 2 d =
        \<lparr>month = 2, day = 29, year = 0, hour = 0, minute = 0, second = 0, dayOfYear = 0\<rparr>"
    by (simp add: monthAndDay_def)
  with True assms show ?thesis
    by (elim insertE emptyE)
      (simp_all add: dateToDayOfYear_def cdoyAt_month dayOfYearToMonthAndDay_def
        daysInMonth_def monthLoop_month)
next
  case False
  with assms show ?thesis
    by (elim insertE emptyE)
      (simp_all add: dateToDayOfYear_def cdoyAt_month dayOfYearToMonthAndDay_def
        daysInMonth_def monthLoop_month)
qed

subsection \<open>The year loop\<close>

lemma timeFor_instantOf:
  "timeFor st e =
     (case yearLoop (startSeconds st e) (startYear st) (isLeapYear (startYear st)) of
        (s, y) \<Rightarrow> instantOf s y)"
  by (simp add: timeFor_def instantOf_def startSeconds_def Let_def split: prod.splits)

lemma yearLoop_stop:
  "\<not> ((\<not> leap \<and> s > 31536000) \<or> s > 31622400) \<Longrightarrow> yearLoop s y leap = (s, y)"
  by (subst yearLoop.simps) auto

lemma yearLoop_step:
  "(\<not> leap \<and> s > 365 * 24 * 60 * 60) \<or> s > 366 * 24 * 60 * 60 \<Longrightarrow>
     yearLoop s y leap =
       yearLoop (if leap then s - 366 * 24 * 60 * 60 else s - 365 * 24 * 60 * 60)
         (y + 1) (isLeapYear (y + 1))"
  by (subst yearLoop.simps) (simp only: if_True)

lemma yearLoop_add:
  "yearLoop s y leap = (sr, yr) \<Longrightarrow> leap = isLeapYear y \<Longrightarrow> 0 \<le> k \<Longrightarrow>
     yearLoop (s + k) y leap = yearLoop (sr + k) yr (isLeapYear yr)"
proof (induction s y leap rule: yearLoop.induct)
  case (1 s y leap)
  let ?s' = "if leap then s - 366 * 24 * 60 * 60 else s - 365 * 24 * 60 * 60"
  show ?case
  proof (cases "(\<not> leap \<and> s > 365 * 24 * 60 * 60) \<or> s > 366 * 24 * 60 * 60")
    case True
    then have "yearLoop s y leap = yearLoop ?s' (y + 1) (isLeapYear (y + 1))"
      by (rule yearLoop_step)
    from this [symmetric] "1.prems"(1)
    have run: "yearLoop ?s' (y + 1) (isLeapYear (y + 1)) = (sr, yr)"
      by (rule trans)
    from True "1.prems"(3)
    have "(\<not> leap \<and> s + k > 365 * 24 * 60 * 60) \<or> s + k > 366 * 24 * 60 * 60"
      by auto
    then have "yearLoop (s + k) y leap =
        yearLoop (if leap then s + k - 366 * 24 * 60 * 60 else s + k - 365 * 24 * 60 * 60)
          (y + 1) (isLeapYear (y + 1))"
      by (rule yearLoop_step)
    also have "(if leap then s + k - 366 * 24 * 60 * 60 else s + k - 365 * 24 * 60 * 60) = ?s' + k"
      by simp
    also have "yearLoop (?s' + k) (y + 1) (isLeapYear (y + 1)) = yearLoop (sr + k) yr (isLeapYear yr)"
      using True run refl "1.prems"(3) by (rule "1.IH")
    finally show ?thesis .
  next
    case False
    then have "yearLoop s y leap = (s, y)"
      by (simp add: yearLoop_stop)
    with "1.prems" show ?thesis by simp
  qed
qed

lemma yearLoop_result:
  "yearLoop s y leap = (sr, yr) \<Longrightarrow> leap = isLeapYear y \<Longrightarrow>
     sr \<le> (if isLeapYear yr then 31622400 else 31536000) \<and> (0 < s \<longrightarrow> 0 < sr) \<and> (0 \<le> s \<longrightarrow> 0 \<le> sr)"
proof (induction s y leap rule: yearLoop.induct)
  case (1 s y leap)
  let ?s' = "if leap then s - 366 * 24 * 60 * 60 else s - 365 * 24 * 60 * 60"
  show ?case
  proof (cases "(\<not> leap \<and> s > 365 * 24 * 60 * 60) \<or> s > 366 * 24 * 60 * 60")
    case True
    then have "yearLoop s y leap = yearLoop ?s' (y + 1) (isLeapYear (y + 1))"
      by (rule yearLoop_step)
    from this [symmetric] "1.prems"(1)
    have run: "yearLoop ?s' (y + 1) (isLeapYear (y + 1)) = (sr, yr)"
      by (rule trans)
    have "sr \<le> (if isLeapYear yr then 31622400 else 31536000) \<and> (0 < ?s' \<longrightarrow> 0 < sr) \<and> (0 \<le> ?s' \<longrightarrow> 0 \<le> sr)"
      using True run refl by (rule "1.IH")
    moreover from True have "0 < ?s'" by auto
    ultimately show ?thesis by simp
  next
    case False
    then have "yearLoop s y leap = (s, y)"
      by (simp add: yearLoop_stop)
    with "1.prems" False show ?thesis by auto
  qed
qed

subsection \<open>Truncating division on seconds that are not negative\<close>

lemma sdiv_nonneg: "0 \<le> a \<Longrightarrow> 0 < b \<Longrightarrow> (a::int) sdiv b = a div b"
  by (simp add: signed_divide_int_def sgn_if)

lemma smod_nonneg: "0 \<le> a \<Longrightarrow> 0 < b \<Longrightarrow> (a::int) smod b = a mod b"
  by (simp add: signed_modulo_int_def sgn_if)

lemma smod_nonpos: "a \<le> 0 \<Longrightarrow> 0 < b \<Longrightarrow> (a::int) smod b \<le> 0"
  by (simp add: signed_modulo_int_def sgn_if)

lemma second_pos:
  assumes "0 < ((s smod 86400) smod 3600) smod (60::int)"
  shows "0 < s"
proof (rule ccontr)
  assume "\<not> 0 < s"
  then have "s smod 86400 \<le> 0" by (simp add: smod_nonpos)
  then have "(s smod 86400) smod 3600 \<le> 0" by (simp add: smod_nonpos)
  then have "((s smod 86400) smod 3600) smod 60 \<le> 0" by (simp add: smod_nonpos)
  with assms show False by simp
qed

lemma instantOf_nonneg:
  assumes "0 \<le> s"
  shows "instantOf s y =
     \<lparr>month = month (dayOfYearToMonthAndDay (s div 86400 + 1) y),
      day = day (dayOfYearToMonthAndDay (s div 86400 + 1) y), year = y,
      hour = (s mod 86400) div 3600,
      minute = ((s mod 86400) mod 3600) div 60,
      second = ((s mod 86400) mod 3600) mod 60,
      dayOfYear = s div 86400 + 1\<rparr>"
proof -
  have a: "s sdiv 86400 = s div 86400" "s smod 86400 = s mod 86400"
    using assms by (simp_all add: sdiv_nonneg smod_nonneg)
  have b: "(s mod 86400) sdiv 3600 = (s mod 86400) div 3600"
    "(s mod 86400) smod 3600 = (s mod 86400) mod 3600"
    by (simp_all add: sdiv_nonneg smod_nonneg)
  have c: "((s mod 86400) mod 3600) sdiv 60 = ((s mod 86400) mod 3600) div 60"
    "((s mod 86400) mod 3600) smod 60 = ((s mod 86400) mod 3600) mod 60"
    by (simp_all add: sdiv_nonneg smod_nonneg)
  show ?thesis
    by (simp add: instantOf_def idiv_def a b c Let_def)
qed

lemma seconds_of_fields:
  assumes "s div 86400 = d" and "(s mod 86400) div 3600 = h"
    and "((s mod 86400) mod 3600) div 60 = m" and "((s mod 86400) mod 3600) mod 60 = c"
  shows "(s::int) = d * 86400 + h * 3600 + m * 60 + c"
proof -
  have "s = (s div 86400) * 86400 + s mod 86400" by simp
  moreover have "s mod 86400 = ((s mod 86400) div 3600) * 3600 + (s mod 86400) mod 3600" by simp
  moreover have "(s mod 86400) mod 3600 =
      (((s mod 86400) mod 3600) div 60) * 60 + ((s mod 86400) mod 3600) mod 60" by simp
  ultimately show ?thesis using assms by linarith
qed
lemma instantOf_10: "instantOf 10 2025 =
    \<lparr>month = 1, day = 1, year = 2025, hour = 0, minute = 0, second = 10, dayOfYear = 1\<rparr>"
  by (simp add: instantOf_nonneg dayOfYearToMonthAndDay_def isLeapYear_2025 monthLoop_month monthAndDay_def)

section \<open>The claims\<close>

subsection \<open>C1: the 12-hour setter\<close>

text \<open>
  Claim C1 says that \<open>setTime\<close> leaves the AM hours 1 to 11 unchanged before it calls
  \<open>set24HourTime\<close>. The source shifts every hour below 12 by 12, whatever \<open>ampm\<close> is
  (its comment speaks of the PM hours only): \<open>setTime(1, 0, 0, AM)\<close> is
  \<open>set24HourTime(13, 0, 0)\<close>, and on the initial state at reading 0 it stores 46800
  seconds (13:00:00), where \<open>set24HourTime(1, 0, 0)\<close> stores 3600.
\<close>

theorem setTime_am_hour_shifted:
  "setTime 1 0 0 AM rt st = set24HourTime 13 0 0 rt st
   \<and> setTime 1 0 0 AM 0 initialState
       = Some \<lparr>startYear = 0, timeToSetpoint = 46800, cpuTimeAtSetpoint = 0, serialOut = []\<rparr>
   \<and> set24HourTime 1 0 0 0 initialState
       = Some \<lparr>startYear = 0, timeToSetpoint = 3600, cpuTimeAtSetpoint = 0, serialOut = []\<rparr>"
proof (intro conjI)
  show "setTime 1 0 0 AM rt st = set24HourTime 13 0 0 rt st"
    by (simp add: setTime_def)
  show "setTime 1 0 0 AM 0 initialState
       = Some \<lparr>startYear = 0, timeToSetpoint = 46800, cpuTimeAtSetpoint = 0, serialOut = []\<rparr>"
    by code_simp
  show "set24HourTime 1 0 0 0 initialState
       = Some \<lparr>startYear = 0, timeToSetpoint = 3600, cpuTimeAtSetpoint = 0, serialOut = []\<rparr>"
    by code_simp
qed

subsection \<open>C2: setting the time keeps the date\<close>

text \<open>
  Claim C2 says that after \<open>set24HourTime\<close> the clock shows the date it showed before,
  with the new time of day. \<open>set24HourTime\<close> computes the seconds from the start of
  the year of the resolved instant but leaves \<open>startYear\<close> as it was. A clock set to
  2023-12-31 23:59:00 at reading 0 shows 2024-01-01 00:01:00 at 120 seconds; after
  \<open>set24HourTime(0, 5, 0)\<close> at that reading it shows 2023-01-01 00:05:00.
\<close>

theorem set24HourTime_year_lost:
  "Option.bind (setDate 12 31 2023 0 initialState) (set24HourTime 23 59 0 0)
     = Some \<lparr>startYear = 2023, timeToSetpoint = 31535940, cpuTimeAtSetpoint = 0, serialOut = []\<rparr>
   \<and> timeFor \<lparr>startYear = 2023, timeToSetpoint = 31535940, cpuTimeAtSetpoint = 0, serialOut = []\<rparr>
        (timeInSeconds 120000)
     = \<lparr>month = 1, day = 1, year = 2024, hour = 0, minute = 1, second = 0, dayOfYear = 1\<rparr>
   \<and> set24HourTime 0 5 0 120000
        \<lparr>startYear = 2023, timeToSetpoint = 31535940, cpuTimeAtSetpoint = 0, serialOut = []\<rparr>
     = Some \<lparr>startYear = 2023, timeToSetpoint = 300, cpuTimeAtSetpoint = 120, serialOut = []\<rparr>
   \<and> timeFor \<lparr>startYear = 2023, timeToSetpoint = 300, cpuTimeAtSetpoint = 120, serialOut = []\<rparr>
        (timeInSeconds 120000)
     = \<lparr>month = 1, day = 1, year = 2023, hour = 0, minute = 5, second = 0, dayOfYear = 1\<rparr>"
  by (intro conjI) code_simp+

subsection \<open>C3: one year later\<close>

text \<open>
  Claim C3, amended. Let the seconds since the start of \<open>startYear\<close>, that is
  \<open>timeToSetpoint + (e - cpuTimeAtSetpoint)\<close>, be positive, let the instant resolved at
  reading \<open>e\<close> lie in a year that is not a leap year, and let the following year not be a
  leap year either or the instant's day of the year be below 60. Then the instant
  resolved at \<open>e + 365 * 86400\<close> is the same instant with the year incremented by 1:
  month, day, hour, minute, second and day of the year are equal.
\<close>

theorem year_rollover:
  assumes "\<not> isLeapYear (year (timeFor st e))"
    and "0 < timeToSetpoint st + (e - cpuTimeAtSetpoint st)"
    and "\<not> isLeapYear (year (timeFor st e) + 1) \<or> dayOfYear (timeFor st e) < 60"
  shows "timeFor st (e + 365 * 86400) = (timeFor st e)\<lparr>year := year (timeFor st e) + 1\<rparr>"
proof -
  obtain sr yr where run:
    "yearLoop (startSeconds st e) (startYear st) (isLeapYear (startYear st)) = (sr, yr)"
    by (cases "yearLoop (startSeconds st e) (startYear st) (isLeapYear (startYear st))")
  then have t: "timeFor st e = instantOf sr yr"
    by (simp add: timeFor_instantOf)
  have yr: "year (timeFor st e) = yr" and doy: "dayOfYear (timeFor st e) = idiv sr 86400 + 1"
    by (simp_all add: t instantOf_def Let_def)
  from assms(1) have nonleap: "\<not> isLeapYear yr" by (simp add: yr)
  from assms(2) have "0 < startSeconds st e" by (simp add: startSeconds_def)
  with yearLoop_result [OF run refl] nonleap have bounds: "0 < sr" "sr \<le> 31536000"
    by simp_all
  have start: "startSeconds st (e + 31536000) = startSeconds st e + 31536000"
    by (simp add: startSeconds_def)
  have "yearLoop (startSeconds st e + 31536000) (startYear st) (isLeapYear (startYear st))
      = yearLoop (sr + 31536000) yr (isLeapYear yr)"
    using run refl by (rule yearLoop_add) simp
  also have "\<dots> = yearLoop sr (yr + 1) (isLeapYear (yr + 1))"
    using bounds nonleap by (subst yearLoop.simps) simp
  also have "\<dots> = (sr, yr + 1)"
    using bounds by (simp add: yearLoop_stop)
  finally have "timeFor st (e + 365 * 86400) = instantOf sr (yr + 1)"
    by (simp add: timeFor_instantOf start)
  moreover have "dayOfYearToMonthAndDay (idiv sr 86400 + 1) (yr + 1)
      = dayOfYearToMonthAndDay (idiv sr 86400 + 1) yr"
    using nonleap assms(3) by (intro dayOfYearToMonthAndDay_next_year) (simp_all add: yr doy)
  ultimately show ?thesis
    by (simp add: t instantOf_def Let_def)
qed

text \<open>
  The claim as it is written fails. From 2023-03-01 00:00:00, 365 days later is
  2024-02-29, since 2024 is a leap year. And when the seconds since the start of the
  year are negative (here after an advance by -1 day from 2023-01-01 00:00:00), the loop
  of \<open>timeFor\<close> does not run and the year stays 2023.
\<close>

theorem year_rollover_counterexample:
  "\<not> isLeapYear (year (timeFor
       \<lparr>startYear = 2023, timeToSetpoint = 5097600, cpuTimeAtSetpoint = 0, serialOut = []\<rparr> 0))
   \<and> timeFor \<lparr>startYear = 2023, timeToSetpoint = 5097600, cpuTimeAtSetpoint = 0, serialOut = []\<rparr> 0
       = \<lparr>month = 3, day = 1, year = 2023, hour = 0, minute = 0, second = 0, dayOfYear = 60\<rparr>
   \<and> timeFor \<lparr>startYear = 2023, timeToSetpoint = 5097600, cpuTimeAtSetpoint = 0, serialOut = []\<rparr>
         (0 + 365 * 86400)
       = \<lparr>month = 2, day = 29, year = 2024, hour = 0, minute = 0, second = 0, dayOfYear = 60\<rparr>
   \<and> \<not> isLeapYear (year (timeFor
       \<lparr>startYear = 2023, timeToSetpoint = 0, cpuTimeAtSetpoint = 86400, serialOut = []\<rparr> 0))
   \<and> year (timeFor \<lparr>startYear = 2023, timeToSetpoint = 0, cpuTimeAtSetpoint = 86400, serialOut = []\<rparr> 0)
       = 2023
   \<and> year (timeFor \<lparr>startYear = 2023, timeToSetpoint = 0, cpuTimeAtSetpoint = 86400, serialOut = []\<rparr>
         (0 + 365 * 86400))
       = 2023"
  by (intro conjI) code_simp+

text \<open>The amended claim at 2022-06-15 10:30:00, reached through one turn of the loop.\<close>

theorem year_rollover_witness:
  "\<not> isLeapYear (year (timeFor
       \<lparr>startYear = 2021, timeToSetpoint = 45829800, cpuTimeAtSetpoint = 500, serialOut = []\<rparr> 500))
   \<and> 0 < timeToSetpoint
       \<lparr>startYear = 2021, timeToSetpoint = 45829800, cpuTimeAtSetpoint = 500, serialOut = []\<rparr>
   \<and> \<not> isLeapYear (year (timeFor
       \<lparr>startYear = 2021, timeToSetpoint = 45829800, cpuTimeAtSetpoint = 500, serialOut = []\<rparr> 500) + 1)
   \<and> timeFor \<lparr>startYear = 2021, timeToSetpoint = 45829800, cpuTimeAtSetpoint = 500, serialOut = []\<rparr>
        500
      = \<lparr>month = 6, day = 15, year = 2022, hour = 10, minute = 30, second = 0, dayOfYear = 166\<rparr>
   \<and> timeFor \<lparr>startYear = 2021, timeToSetpoint = 45829800, cpuTimeAtSetpoint = 500, serialOut = []\<rparr>
        (500 + 365 * 86400)
      = \<lparr>month = 6, day = 15, year = 2023, hour = 10, minute = 30, second = 0, dayOfYear = 166\<rparr>"
proof -
  let ?st = "\<lparr>startYear = 2021, timeToSetpoint = 45829800, cpuTimeAtSetpoint = 500, serialOut = []\<rparr>"
  have t: "timeFor ?st 500 =
      \<lparr>month = 6, day = 15, year = 2022, hour = 10, minute = 30, second = 0, dayOfYear = 166\<rparr>"
    by code_simp
  have l: "\<not> isLeapYear 2022" "\<not> isLeapYear 2023"
    by code_simp+
  show ?thesis
    using year_rollover [of ?st 500] by (simp add: t l)
qed

subsection \<open>C4: an advance over the end of a leap year\<close>

text \<open>
  Claim C4. For every state and reading \<open>e\<close> at which \<open>timeFor\<close> returns
  2024-12-31 23:59:30, after \<open>advanceBy(40, Seconds)\<close> it returns 2025-01-01 00:00:10
  at the same reading, on day 1 of the year.
\<close>

theorem advance_over_new_year:
  assumes "month (timeFor st e) = 12" and "day (timeFor st e) = 31"
    and "year (timeFor st e) = 2024" and "hour (timeFor st e) = 23"
    and "minute (timeFor st e) = 59" and "second (timeFor st e) = 30"
  shows "timeFor (advanceBy 40 Seconds st) e =
    \<lparr>month = 1, day = 1, year = 2025, hour = 0, minute = 0, second = 10, dayOfYear = 1\<rparr>"
proof -
  obtain sr yr where run:
    "yearLoop (startSeconds st e) (startYear st) (isLeapYear (startYear st)) = (sr, yr)"
    by (cases "yearLoop (startSeconds st e) (startYear st) (isLeapYear (startYear st))")
  then have t: "timeFor st e = instantOf sr yr"
    by (simp add: timeFor_instantOf)
  from assms(3) have yr: "yr = 2024"
    by (simp add: t instantOf_def Let_def)
  from assms(6) have "0 < ((sr smod 86400) smod 3600) smod 60"
    by (simp add: t instantOf_def Let_def)
  then have pos: "0 \<le> sr"
    using second_pos [of sr] by simp
  note t' = t [unfolded instantOf_nonneg [OF pos] yr]
  from assms(1,2) have "sr div 86400 + 1 = 366"
    using december_31_leap [OF isLeapYear_2024, of "sr div 86400 + 1"] by (simp add: t')
  then have "sr div 86400 = 365" by simp
  moreover from assms(4) have "(sr mod 86400) div 3600 = 23" by (simp add: t')
  moreover from assms(5) have "((sr mod 86400) mod 3600) div 60 = 59" by (simp add: t')
  moreover from assms(6) have "((sr mod 86400) mod 3600) mod 60 = 30" by (simp add: t')
  ultimately have "sr = 365 * 86400 + 23 * 3600 + 59 * 60 + 30"
    by (rule seconds_of_fields)
  then have sr: "sr = 31622370" by simp
  have start: "startSeconds (advanceBy 40 Seconds st) e = startSeconds st e + 40"
    by (simp add: startSeconds_def advanceBy_def units_def)
  have year: "startYear (advanceBy 40 Seconds st) = startYear st"
    by (simp add: advanceBy_def)
  have "yearLoop (startSeconds st e + 40) (startYear st) (isLeapYear (startYear st))
      = yearLoop (sr + 40) yr (isLeapYear yr)"
    using run refl by (rule yearLoop_add) simp
  also have "\<dots> = yearLoop 31622410 2024 True"
    by (simp add: sr yr isLeapYear_2024)
  also have "\<dots> = yearLoop 10 2025 (isLeapYear 2025)"
    by (subst yearLoop.simps) simp
  also have "\<dots> = (10, 2025)"
    by (simp add: yearLoop_stop)
  finally show ?thesis
    by (simp add: timeFor_instantOf start year instantOf_10)
qed

text \<open>A state that resolves to 2024-12-31 23:59:30 at reading 10000, a year after its setpoint.\<close>

theorem advance_over_new_year_witness:
  "timeFor \<lparr>startYear = 2023, timeToSetpoint = 63153370, cpuTimeAtSetpoint = 5000, serialOut = []\<rparr>
      10000
     = \<lparr>month = 12, day = 31, year = 2024, hour = 23, minute = 59, second = 30, dayOfYear = 366\<rparr>
   \<and> timeFor (advanceBy 40 Seconds
        \<lparr>startYear = 2023, timeToSetpoint = 63153370, cpuTimeAtSetpoint = 5000, serialOut = []\<rparr>)
      10000
     = \<lparr>month = 1, day = 1, year = 2025, hour = 0, minute = 0, second = 10, dayOfYear = 1\<rparr>"
proof -
  let ?st = "\<lparr>startYear = 2023, timeToSetpoint = 63153370, cpuTimeAtSetpoint = 5000, serialOut = []\<rparr>"
  have t: "timeFor ?st 10000 =
      \<lparr>month = 12, day = 31, year = 2024, hour = 23, minute = 59, second = 30, dayOfYear = 366\<rparr>"
    by code_simp
  show ?thesis
    using advance_over_new_year [of ?st 10000] by (simp add: t)
qed

subsection \<open>C5: from a date to the day of the year and back\<close>

text \<open>
  Claim C5. For every month \<open>m\<close> from 1 to 12, every day \<open>d\<close> from 1 to the length of
  that month in year \<open>y\<close>, \<open>dateToDayOfYear\<close> returns a number, and
  \<open>dayOfYearToMonthAndDay\<close> of that number and \<open>y\<close> returns month \<open>m\<close> and day \<open>d\<close>.
  In particular \<open>dateToDayOfYear(2, 29, 2024)\<close> is 60, day 60 of 2024 is February 29 and
  day 61 of 2024 is March 1.
\<close>

theorem date_roundtrip:
  "(1 \<le> m \<and> m \<le> 12 \<and> 1 \<le> d \<and> d \<le> daysInMonth m y \<longrightarrow>
      map_option (\<lambda>doy. dayOfYearToMonthAndDay doy y) (dateToDayOfYear m d y)
        = Some (monthAndDay m d))
   \<and> dateToDayOfYear 2 29 2024 = Some 60
   \<and> dayOfYearToMonthAndDay 60 2024 = monthAndDay 2 29
   \<and> dayOfYearToMonthAndDay 61 2024 = monthAndDay 3 1"
proof -
  have "m \<in> {1, 2, 3, 4, 5, 6, 7, 8, 9, 10, 11, 12}" if "1 \<le> m" "m \<le> 12"
    using that by (simp; arith)
  then have general: "1 \<le> m \<and> m \<le> 12 \<and> 1 \<le> d \<and> d \<le> daysInMonth m y \<longrightarrow>
      map_option (\<lambda>doy. dayOfYearToMonthAndDay doy y) (dateToDayOfYear m d y)
        = Some (monthAndDay m d)"
    using roundtrip_month by blast
  have a: "dateToDayOfYear 2 29 2024 = Some 60"
    by (simp add: dateToDayOfYear_def cdoyAt_month)
  have b: "dayOfYearToMonthAndDay 60 2024 = monthAndDay 2 29"
    by (simp add: dayOfYearToMonthAndDay_def isLeapYear_2024 monthAndDay_def)
  have c: "dayOfYearToMonthAndDay 61 2024 = monthAndDay 3 1"
    by (simp add: dayOfYearToMonthAndDay_def isLeapYear_2024 monthLoop_month)
  from general a b c show ?thesis by blast
qed

text \<open>The round trip at 2023-12-31, the last day of a year that is not a leap year.\<close>

theorem date_roundtrip_witness:
  "daysInMonth 12 2023 = 31
   \<and> dateToDayOfYear 12 31 2023 = Some 365
   \<and> map_option (\<lambda>doy. dayOfYearToMonthAndDay doy 2023) (dateToDayOfYear 12 31 2023)
       = Some (monthAndDay 12 31)"
proof -
  have h: "daysInMonth 12 2023 = 31"
    by (simp add: daysInMonth_def)
  have v: "dateToDayOfYear 12 31 2023 = Some 365"
    by code_simp
  from h v show ?thesis
    using date_roundtrip [of 12 31 2023] by simp
qed

subsection \<open>C6: the units of an advance\<close>

text \<open>
  Claim C6. \<open>advanceBy\<close> with the unit Seconds, Minutes, Hours or Days subtracts the
  amount times 1, 60, 3600 or 86400 from \<open>cpuTimeAtSetpoint\<close>, whatever the amount, and
  leaves \<open>startYear\<close> and \<open>timeToSetpoint\<close> as they were; nothing is clamped.
\<close>

theorem advanceBy_units:
  "cpuTimeAtSetpoint (advanceBy amount Seconds st) = cpuTimeAtSetpoint st - amount * 1
   \<and> cpuTimeAtSetpoint (advanceBy amount Minutes st) = cpuTimeAtSetpoint st - amount * 60
   \<and> cpuTimeAtSetpoint (advanceBy amount Hours st) = cpuTimeAtSetpoint st - amount * 3600
   \<and> cpuTimeAtSetpoint (advanceBy amount Days st) = cpuTimeAtSetpoint st - amount * 86400
   \<and> startYear (advanceBy amount u st) = startYear st
   \<and> timeToSetpoint (advanceBy amount u st) = timeToSetpoint st"
  by (simp add: advanceBy_def units_def)

subsection \<open>C7: the range of a resolved instant\<close>

text \<open>
  Claim C7 says that with \<open>timeToSetpoint\<close> at least 0 and a reading at least
  \<open>cpuTimeAtSetpoint\<close> the resolved month is in 1 to 12 and the day of the year in 1 to
  366. The loop of \<open>timeFor\<close> leaves a year only when the seconds exceed its length, so
  at exactly the length of the year the instant stays in the old year. A clock set to
  2023-12-31 23:59:59 at reading 0 resolves, one second later, to month -1 and day -1 on
  day 366 of 2023; in the leap year 2024 the same second is day 367.
\<close>

theorem timeFor_sentinel_at_new_year:
  "Option.bind (setDate 12 31 2023 0 initialState) (set24HourTime 23 59 59 0)
     = Some \<lparr>startYear = 2023, timeToSetpoint = 31535999, cpuTimeAtSetpoint = 0, serialOut = []\<rparr>
   \<and> timeFor \<lparr>startYear = 2023, timeToSetpoint = 31535999, cpuTimeAtSetpoint = 0, serialOut = []\<rparr> 1
     = \<lparr>month = -1, day = -1, year = 2023, hour = 0, minute = 0, second = 0, dayOfYear = 366\<rparr>
   \<and> Option.bind (setDate 12 31 2024 0 initialState) (set24HourTime 23 59 59 0)
     = Some \<lparr>startYear = 2024, timeToSetpoint = 31622399, cpuTimeAtSetpoint = 0, serialOut = []\<rparr>
   \<and> timeFor \<lparr>startYear = 2024, timeToSetpoint = 31622399, cpuTimeAtSetpoint = 0, serialOut = []\<rparr> 1
     = \<lparr>month = -1, day = -1, year = 2024, hour = 0, minute = 0, second = 0, dayOfYear = 367\<rparr>"
  by (intro conjI) code_simp+

subsection \<open>C8: the sentinel of the inverse lookup\<close>

text \<open>
  Claim C8. \<open>dayOfYearToMonthAndDay\<close> returns month -1 and day -1 exactly when the day of
  the year exceeds the length of the year (365, or 366 in a leap year). For a day of the
  year from 1 to that length it returns a month from 1 to 12 and a day from 1 to the
  length of that month.
\<close>

theorem sentinel_iff_beyond_year:
  "((month (dayOfYearToMonthAndDay d y) = -1 \<and> day (dayOfYearToMonthAndDay d y) = -1)
      = (d > daysInYear y))
   \<and> (1 \<le> d \<and> d \<le> daysInYear y \<longrightarrow>
        1 \<le> month (dayOfYearToMonthAndDay d y) \<and> month (dayOfYearToMonthAndDay d y) \<le> 12 \<and>
        1 \<le> day (dayOfYearToMonthAndDay d y) \<and>
        day (dayOfYearToMonthAndDay d y) \<le> daysInMonth (month (dayOfYearToMonthAndDay d y)) y)"
  by (cases "isLeapYear y")
    (simp_all add: dayOfYearToMonthAndDay_def monthLoop_unfold daysInYear_def daysInMonth_def
      monthAndDay_def)

text \<open>Day 366 of the leap year 2024 is in range; the month found is at most 12.\<close>

theorem sentinel_iff_beyond_year_witness:
  "daysInYear 2024 = 366
   \<and> 1 \<le> month (dayOfYearToMonthAndDay 366 2024)
   \<and> month (dayOfYearToMonthAndDay 366 2024) \<le> 12
   \<and> 1 \<le> day (dayOfYearToMonthAndDay 366 2024)
   \<and> day (dayOfYearToMonthAndDay 366 2024)
       \<le> daysInMonth (month (dayOfYearToMonthAndDay 366 2024)) 2024"
proof -
  have h: "daysInYear 2024 = 366"
    by (simp add: daysInYear_def isLeapYear_2024)
  then show ?thesis
    using sentinel_iff_beyond_year [of 366 2024] by simp
qed

subsection \<open>C9: the queries leave the state alone\<close>

text \<open>
  Claim C9. The state after \<open>time\<close>, \<open>date\<close> and \<open>dateTime\<close> is the state before;
  \<open>numericTime\<close> hands the state it was given to the handler, so that every change is
  the handler's; the three event blocks change nothing. The blocks that are left,
  \<open>set24HourTime\<close>, \<open>setTime\<close>, \<open>setDate\<close> and \<open>advanceBy\<close>, are the only ones that
  write the three variables.
\<close>

theorem queries_keep_state:
  "snd (time tf rt st) = st
   \<and> snd (date df rt st) = st
   \<and> snd (dateTime rt st) = st
   \<and> numericTime handler rt st =
        handler (hour (timeFor st (timeInSeconds rt))) (minute (timeFor st (timeInSeconds rt)))
          (second (timeFor st (timeInSeconds rt)))
          (dayOfWeek (month (timeFor st (timeInSeconds rt))) (day (timeFor st (timeInSeconds rt)))
             (year (timeFor st (timeInSeconds rt))))
          (day (timeFor st (timeInSeconds rt))) (month (timeFor st (timeInSeconds rt)))
          (year (timeFor st (timeInSeconds rt))) (dayOfYear (timeFor st (timeInSeconds rt))) st
   \<and> onMinuteChanged h1 st = st
   \<and> onHourChanged h2 st = st
   \<and> onDayChanged h3 st = st"
  by (cases tf; cases df)
    (simp_all add: dateTime_def numericTime_def onMinuteChanged_def onHourChanged_def
      onDayChanged_def Let_def)

subsection \<open>C10: an advance in milliseconds\<close>

text \<open>
  Claim C10. \<open>advanceBy\<close> with the unit Milliseconds multiplies the amount by 0: the
  three variables are as before, whatever the amount, and so are the resolved instant
  at every reading and the results of \<open>time\<close>, \<open>date\<close> and \<open>dateTime\<close>.
\<close>

theorem advanceBy_milliseconds:
  "cpuTimeAtSetpoint (advanceBy amount Milliseconds st) = cpuTimeAtSetpoint st
   \<and> timeToSetpoint (advanceBy amount Milliseconds st) = timeToSetpoint st
   \<and> startYear (advanceBy amount Milliseconds st) = startYear st
   \<and> timeFor (advanceBy amount Milliseconds st) e = timeFor st e
   \<and> fst (time tf rt (advanceBy amount Milliseconds st)) = fst (time tf rt st)
   \<and> fst (date df rt (advanceBy amount Milliseconds st)) = fst (date df rt st)
   \<and> fst (dateTime rt (advanceBy amount Milliseconds st)) = fst (dateTime rt st)"
proof -
  have t: "timeFor (advanceBy amount Milliseconds st) e = timeFor st e" for e
    by (simp add: timeFor_def advanceBy_def units_def)
  show ?thesis
    by (cases tf; cases df) (simp_all add: t dateTime_def Let_def, simp_all add: advanceBy_def units_def)
qed

end
